theory Spec2Isabelle
  imports Main "HOL-Library.Sublist"
begin

section \<open>Strings and paths\<close>

text \<open>
  File names and paths are byte strings. The only string operations of
  \<^verbatim>\<open>Tools/DirectoryLoader.py\<close> are concatenation, \<^verbatim>\<open>os.path.join\<close>,
  \<^verbatim>\<open>os.path.basename\<close> (POSIX flavour) and the substring test \<^verbatim>\<open>in\<close> with ASCII
  needles, all of which agree on code points and on UTF-8 bytes.
\<close>

definition os_path_join :: "string \<Rightarrow> string \<Rightarrow> string" where
  "os_path_join a b =
     (if b \<noteq> [] \<and> hd b = CHR ''/'' then b
      else if a = [] \<or> last a = CHR ''/'' then a @ b
      else a @ ''/'' @ b)"

definition os_path_basename :: "string \<Rightarrow> string" where
  "os_path_basename p = rev (takeWhile (\<lambda>c. c \<noteq> CHR ''/'') (rev p))"

text \<open>The Python test \<^verbatim>\<open>sub in s\<close> on strings.\<close>

fun str_in :: "string \<Rightarrow> string \<Rightarrow> bool" where
  "str_in sub [] = (sub = [])"
| "str_in sub (c # cs) = (prefix sub (c # cs) \<or> str_in sub cs)"

definition newline :: string where
  "newline = [CHR 0x0A]"


section \<open>Documents, exceptions and the environment\<close>

datatype doc_type = TYPE_ARTICLE | TYPE_MENU | TYPE_INDEX

type_synonym addr = nat

text \<open>
  Modelled from the spec: the class \<^verbatim>\<open>WhitebearDocument\<close>
  (\<^verbatim>\<open>Tools/Document/WhitebearDocumentArticle.py\<close>) is not among the sources. The
  loader only calls its constructor with a file name, a real path, a type constant and
  either \<^verbatim>\<open>None\<close> or the loader's menu dictionary; the record keeps these four
  arguments. The dictionary is passed by reference, so the record holds its address.
\<close>

record WhitebearDocument =
  doc_filename :: string
  doc_file_path :: string
  doc_type :: doc_type
  doc_menus :: "addr option"

type_synonym doc_dict = "string \<rightharpoonup> WhitebearDocument"

text \<open>
  Dictionaries are objects: the store maps the address of a dictionary to its
  contents, \<open>fresh\<close> is the next unused address.
\<close>

record store =
  cells :: "addr \<Rightarrow> doc_dict"
  fresh :: addr

text \<open>
  The exception classes that leave the loader. \<open>OSError\<close> is what
  \<^verbatim>\<open>lxml.html.parse\<close> raises for a path it cannot read; the loader has no handler
  for it.
\<close>

datatype py_exception =
    AccessException string
  | FileNotFoundError string
  | IndexError string
  | UnrecognizedFileException string
  | OSError string

datatype 'd parse_result = Parsed 'd | XMLSyntaxError string | ParseOSError string

text \<open>
  A compiled \<^verbatim>\<open>etree.XMLSchema\<close>: \<open>validate\<close> is its boolean verdict on a
  parsed document, \<open>error_log\<close> the text of its error log after that call. The three
  schema files are resources outside the sources, so schemas are parameters.
\<close>

record 'd xmlschema =
  validate :: "'d \<Rightarrow> bool"
  error_log :: "'d \<Rightarrow> string"

text \<open>
  The operating system and the HTML parser, one field per library call the loader makes.
\<close>

record 'd os_env =
  access_R :: "string \<Rightarrow> bool"
  access_W :: "string \<Rightarrow> bool"
  path_exists :: "string \<Rightarrow> bool"
  path_isfile :: "string \<Rightarrow> bool"
  path_realpath :: "string \<Rightarrow> string"
  glob_glob :: "string \<Rightarrow> string list"
  html_parse :: "string \<Rightarrow> 'd parse_result"

text \<open>The message constants of \<^verbatim>\<open>Constants.Strings\<close> used by the loader (parameters).\<close>

record Strings =
  exception_access :: string
  exception_index :: string
  exception_not_white_bear :: string
  exception_html_syntax_error :: string
  exception_access_html :: string
  exception_file_unrecognized :: string


section \<open>DirectoryLoader\<close>

record 'd DirectoryLoader =
  directory_path :: string
  article_documents :: addr
  menu_documents :: addr
  index_document :: "WhitebearDocument option"
  xmlschema_index :: "'d xmlschema"
  xmlschema_article :: "'d xmlschema"
  xmlschema_menu :: "'d xmlschema"

type_synonym 'd loader_state = "'d DirectoryLoader \<times> store"

text \<open>\<^verbatim>\<open>__init__\<close>: two new empty dictionaries, no index document, the three schemas.\<close>

definition DirectoryLoader_init ::
  "'d xmlschema \<Rightarrow> 'd xmlschema \<Rightarrow> 'd xmlschema \<Rightarrow> store \<Rightarrow> 'd loader_state" where
  "DirectoryLoader_init s_index s_article s_menu st =
     (\<lparr>directory_path = [],
       article_documents = fresh st,
       menu_documents = Suc (fresh st),
       index_document = None,
       xmlschema_index = s_index,
       xmlschema_article = s_article,
       xmlschema_menu = s_menu\<rparr>,
      st\<lparr>cells := (cells st)(fresh st := Map.empty, Suc (fresh st) := Map.empty),
         fresh := Suc (Suc (fresh st))\<rparr>)"

definition get_directory :: "'d DirectoryLoader \<Rightarrow> string" where
  "get_directory ld = directory_path ld"

text \<open>
  \<^verbatim>\<open>get_articles\<close> and \<^verbatim>\<open>get_menus\<close> return the dictionary objects themselves;
  here, their contents in the current store.
\<close>

definition get_articles :: "'d loader_state \<Rightarrow> doc_dict" where
  "get_articles s = cells (snd s) (article_documents (fst s))"

definition get_menus :: "'d loader_state \<Rightarrow> doc_dict" where
  "get_menus s = cells (snd s) (menu_documents (fst s))"

definition get_index_page :: "'d loader_state \<Rightarrow> WhitebearDocument option" where
  "get_index_page s = index_document (fst s)"

text \<open>Assignment \<^verbatim>\<open>d[key] = doc\<close> to the dictionary at an address.\<close>

definition dict_set :: "addr \<Rightarrow> string \<Rightarrow> WhitebearDocument \<Rightarrow> store \<Rightarrow> store" where
  "dict_set a k v st = st\<lparr>cells := (cells st)(a := (cells st a)(k \<mapsto> v))\<rparr>"

text \<open>
  \<^verbatim>\<open>_is_white_bear_directory\<close>: the directory gate. It returns \<^verbatim>\<open>True\<close> or
  raises.
\<close>

definition is_white_bear_directory ::
  "'d os_env \<Rightarrow> Strings \<Rightarrow> 'd DirectoryLoader \<Rightarrow> string \<Rightarrow> py_exception + bool" where
  "is_white_bear_directory E S ld path =
     (if \<not> access_R E path \<or> \<not> access_W E path then Inl (AccessException (exception_access S))
      else if \<not> path_exists E (os_path_join path ''index.html'')
        then Inl (FileNotFoundError (exception_index S @ '' '' @ path))
      else (case html_parse E (os_path_join path ''index.html'') of
              Parsed xml_doc \<Rightarrow>
                if \<not> validate (xmlschema_index ld) xml_doc
                then Inl (IndexError (exception_not_white_bear S @ newline
                                       @ error_log (xmlschema_index ld) xml_doc))
                else Inr True
            | XMLSyntaxError e \<Rightarrow>
                Inl (IndexError (exception_html_syntax_error S @ newline @ e))
            | ParseOSError e \<Rightarrow> Inl (OSError e)))"

text \<open>
  The if/elif chain of \<^verbatim>\<open>_prepare_documents\<close> on a parsed file: article, then
  menu, then index; \<open>None\<close> is the final \<^verbatim>\<open>else\<close>.
\<close>

definition classify :: "'d DirectoryLoader \<Rightarrow> 'd \<Rightarrow> doc_type option" where
  "classify ld xml_doc =
     (if validate (xmlschema_article ld) xml_doc then Some TYPE_ARTICLE
      else if validate (xmlschema_menu ld) xml_doc then Some TYPE_MENU
      else if validate (xmlschema_index ld) xml_doc then Some TYPE_INDEX
      else None)"

text \<open>
  One iteration of the loop of \<^verbatim>\<open>_prepare_documents\<close> for the entry \<open>g\<close> that
  \<^verbatim>\<open>glob\<close> returned. The result is the exception raised, if any, and the loader
  and store as the iteration leaves them. The \<^verbatim>\<open>print\<close> of the article schema's
  error log before the last \<^verbatim>\<open>raise\<close> writes to standard output only and is left
  out.
\<close>

definition process_file ::
  "'d os_env \<Rightarrow> Strings \<Rightarrow> string \<Rightarrow> string \<Rightarrow> 'd loader_state
     \<Rightarrow> py_exception option \<times> 'd loader_state" where
  "process_file E S path g s =
     (let ld = fst s; st = snd s; file = os_path_join path g in
      if path_isfile E file then
        if \<not> access_R E file \<or> \<not> access_W E file
        then (Some (AccessException (exception_access_html S @ '' '' @ file)), s)
        else
          let filename = os_path_basename file;
              file_path = path_realpath E file in
          (case html_parse E (os_path_join path file) of
             Parsed xml_doc \<Rightarrow>
               (case classify ld xml_doc of
                  Some TYPE_ARTICLE \<Rightarrow>
                    (None, ld, dict_set (article_documents ld) filename
                       \<lparr>doc_filename = filename, doc_file_path = file_path,
                        doc_type = TYPE_ARTICLE, doc_menus = Some (menu_documents ld)\<rparr> st)
                | Some TYPE_MENU \<Rightarrow>
                    (None, ld, dict_set (menu_documents ld) filename
                       \<lparr>doc_filename = filename, doc_file_path = file_path,
                        doc_type = TYPE_MENU, doc_menus = None\<rparr> st)
                | Some TYPE_INDEX \<Rightarrow>
                    (None, ld\<lparr>index_document := Some
                       \<lparr>doc_filename = filename, doc_file_path = file_path,
                        doc_type = TYPE_INDEX, doc_menus = None\<rparr>\<rparr>, st)
                | None \<Rightarrow>
                    if str_in ''google'' filename \<or> str_in ''404'' filename
                    then (None, s)
                    else (Some (UnrecognizedFileException
                                  (exception_file_unrecognized S @ '' '' @ filename)), s))
           | XMLSyntaxError e \<Rightarrow>
               (Some (UnrecognizedFileException
                        (exception_html_syntax_error S @ newline @ e)), s)
           | ParseOSError e \<Rightarrow> (Some (OSError e), s))
      else (None, s))"

text \<open>The \<^verbatim>\<open>for\<close> loop: an exception ends it, with the state reached so far.\<close>

fun prepare_loop ::
  "'d os_env \<Rightarrow> Strings \<Rightarrow> string \<Rightarrow> string list \<Rightarrow> 'd loader_state
     \<Rightarrow> py_exception option \<times> 'd loader_state" where
  "prepare_loop E S path [] s = (None, s)"
| "prepare_loop E S path (g # gs) s =
     (case process_file E S path g s of
        (Some e, s') \<Rightarrow> (Some e, s')
      | (None, s') \<Rightarrow> prepare_loop E S path gs s')"

definition prepare_documents ::
  "'d os_env \<Rightarrow> Strings \<Rightarrow> string \<Rightarrow> 'd loader_state
     \<Rightarrow> py_exception option \<times> 'd loader_state" where
  "prepare_documents E S path s = prepare_loop E S path (glob_glob E (path @ ''/*.html'')) s"

text \<open>
  \<^verbatim>\<open>load_directory\<close>: the path is stored first, then the gate, then the loop.
\<close>

definition load_directory ::
  "'d os_env \<Rightarrow> Strings \<Rightarrow> string \<Rightarrow> 'd loader_state
     \<Rightarrow> py_exception option \<times> 'd loader_state" where
  "load_directory E S path s =
     (let ld = (fst s)\<lparr>directory_path := path\<rparr> in
      case is_white_bear_directory E S ld (directory_path ld) of
        Inl e \<Rightarrow> (Some e, ld, snd s)
      | Inr ok \<Rightarrow>
          if ok then prepare_documents E S (directory_path ld) (ld, snd s)
          else (None, ld, snd s))"

text \<open>
  The condition under which the loop body takes the branch of type \<open>t\<close> for the
  entry \<open>g\<close>: the path it tests is a readable and writable file, the file parses
  and \<open>t\<close> is the first schema it satisfies. \<open>document_of\<close> is the document
  that branch builds.
\<close>

definition classified_as ::
  "'d os_env \<Rightarrow> 'd DirectoryLoader \<Rightarrow> string \<Rightarrow> string \<Rightarrow> doc_type \<Rightarrow> bool" where
  "classified_as E ld path g t \<longleftrightarrow>
     path_isfile E (os_path_join path g) \<and>
     access_R E (os_path_join path g) \<and> access_W E (os_path_join path g) \<and>
     (case html_parse E (os_path_join path (os_path_join path g)) of
        Parsed xml_doc \<Rightarrow> classify ld xml_doc = Some t
      | XMLSyntaxError e \<Rightarrow> False
      | ParseOSError e \<Rightarrow> False)"

definition document_of :: "'d os_env \<Rightarrow> string \<Rightarrow> string \<Rightarrow> doc_type \<Rightarrow> addr option \<Rightarrow> WhitebearDocument" where
  "document_of E path g t menus =
     \<lparr>doc_filename = os_path_basename (os_path_join path g),
      doc_file_path = path_realpath E (os_path_join path g),
      doc_type = t, doc_menus = menus\<rparr>"

text \<open>
  Every article in the article dictionary refers to the loader's own menu dictionary,
  and the two dictionaries are different objects.
\<close>

definition articles_share_menus :: "'d loader_state \<Rightarrow> bool" where
  "articles_share_menus s \<longleftrightarrow>
     article_documents (fst s) \<noteq> menu_documents (fst s) \<and>
     (\<forall>k d. get_articles s k = Some d \<longrightarrow> doc_menus d = Some (menu_documents (fst s)))"

text \<open>
  A caller that loads one directory after another with the same loader, each in the
  file system of its moment, and carries on after a failed load.
\<close>

fun load_all :: "Strings \<Rightarrow> ('d os_env \<times> string) list \<Rightarrow> 'd loader_state \<Rightarrow> 'd loader_state" where
  "load_all S [] s = s"
| "load_all S ((E, path) # rest) s = load_all S rest (snd (load_directory E S path s))"


section \<open>BaseImage\<close>

text \<open>
  \<^verbatim>\<open>Tools/Document/BaseImage.py\<close>. Python's \<^verbatim>\<open>len\<close> counts code points, so
  the text fields are lists over a type \<open>'c\<close> of code points. The bounds of
  \<^verbatim>\<open>Constants.Numbers\<close> and the texts of \<^verbatim>\<open>Constants.Strings\<close> are not among
  the sources and are parameters.
\<close>

datatype wx_Colour = NullColour | RED

typedecl wx_Image

record 'c BaseImage =
  link_title :: "'c list"
  link_title_error_message :: "'c list"
  image_alt :: "'c list"
  image_alt_error_message :: "'c list"
  original_image_path :: "'c list"
  thumbnail_path :: "'c list"
  full_filename :: "'c list"
  thumbnail_filename :: "'c list"
  image :: "wx_Image option"
  status_color :: "wx_Colour option"

record Numbers =
  article_image_title_min :: int
  article_image_title_max :: int
  article_image_alt_min :: int
  article_image_alt_max :: int

record 'c seo_strings =
  seo_error_link_title_length :: "'c list"
  seo_error_default_value :: "'c list"
  seo_error_image_alt_length :: "'c list"
  label_article_image_link_title :: "'c list"
  label_article_image_alt :: "'c list"

definition BaseImage_init ::
  "'c list \<Rightarrow> 'c list \<Rightarrow> 'c list \<Rightarrow> 'c list \<Rightarrow> 'c list \<Rightarrow> 'c list \<Rightarrow> 'c BaseImage" where
  "BaseImage_init title alt original_path thumb_path full_name thumb_name =
     \<lparr>link_title = title, link_title_error_message = [],
      image_alt = alt, image_alt_error_message = [],
      original_image_path = original_path, thumbnail_path = thumb_path,
      full_filename = full_name, thumbnail_filename = thumb_name,
      image = None, status_color = None\<rparr>"

text \<open>
  \<^verbatim>\<open>seo_test_self\<close>, assignment by assignment: the pair is the object and the
  local variable \<^verbatim>\<open>result\<close>.
\<close>

definition seo_test_self :: "Numbers \<Rightarrow> 'c seo_strings \<Rightarrow> 'c BaseImage \<Rightarrow> bool \<times> 'c BaseImage" where
  "seo_test_self N T self =
     (let s0 = self\<lparr>link_title_error_message := [], image_alt_error_message := [],
                    status_color := Some NullColour\<rparr>;
          r0 = True;
          (s1, r1) =
            (if int (length (link_title s0)) < article_image_title_min N
                \<or> int (length (link_title s0)) > article_image_title_max N
             then (s0\<lparr>link_title_error_message := seo_error_link_title_length T\<rparr>, False)
             else (s0, r0));
          (s2, r2) =
            (if link_title s1 = label_article_image_link_title T
             then (s1\<lparr>link_title_error_message := seo_error_default_value T\<rparr>, False)
             else (s1, r1));
          (s3, r3) =
            (if int (length (image_alt s2)) < article_image_alt_min N
                \<or> int (length (image_alt s2)) > article_image_alt_max N
             then (s2\<lparr>image_alt_error_message := seo_error_image_alt_length T\<rparr>, False)
             else (s2, r2));
          (s4, r4) =
            (if image_alt s3 = label_article_image_alt T
             then (s3\<lparr>image_alt_error_message := seo_error_default_value T\<rparr>, False)
             else (s3, r3));
          s5 = (if \<not> r4 then s4\<lparr>status_color := Some RED\<rparr> else s4)
      in (r4, s5))"

definition get_link_title :: "'c BaseImage \<Rightarrow> 'c list \<times> 'c list" where
  "get_link_title self = (link_title self, link_title_error_message self)"

definition get_image_alt :: "'c BaseImage \<Rightarrow> 'c list \<times> 'c list" where
  "get_image_alt self = (image_alt self, image_alt_error_message self)"

definition get_status_color :: "'c BaseImage \<Rightarrow> wx_Colour option" where
  "get_status_color self = status_color self"

text \<open>The two rules of each field, as the conditions of \<^verbatim>\<open>seo_test_self\<close> state them.\<close>

definition title_passes :: "Numbers \<Rightarrow> 'c seo_strings \<Rightarrow> 'c list \<Rightarrow> bool" where
  "title_passes N T v \<longleftrightarrow>
     article_image_title_min N \<le> int (length v) \<and> int (length v) \<le> article_image_title_max N
     \<and> v \<noteq> label_article_image_link_title T"

definition alt_passes :: "Numbers \<Rightarrow> 'c seo_strings \<Rightarrow> 'c list \<Rightarrow> bool" where
  "alt_passes N T v \<longleftrightarrow>
     article_image_alt_min N \<le> int (length v) \<and> int (length v) \<le> article_image_alt_max N
     \<and> v \<noteq> label_article_image_alt T"


section \<open>Sample data\<close>

text \<open>
  A small file system: the directories \<open>dirs\<close> are readable and writable, each
  file is listed with its full path, its read and write permission and what the parser
  makes of it. A sample document is the list of the schemas it satisfies.
\<close>

definition tree_env ::
  "string list \<Rightarrow> (string \<times> bool \<times> bool \<times> 'd parse_result) list \<Rightarrow> 'd os_env" where
  "tree_env dirs files =
     \<lparr>access_R = (\<lambda>p. p \<in> set dirs \<or> (case map_of files p of Some (r, w, c) \<Rightarrow> r | None \<Rightarrow> False)),
      access_W = (\<lambda>p. p \<in> set dirs \<or> (case map_of files p of Some (r, w, c) \<Rightarrow> w | None \<Rightarrow> False)),
      path_exists = (\<lambda>p. p \<in> set dirs \<or> p \<in> set (map fst files)),
      path_isfile = (\<lambda>p. p \<in> set (map fst files)),
      path_realpath = (\<lambda>p. p),
      glob_glob = (\<lambda>pat. filter (\<lambda>p. suffix ''.html'' p \<and>
                     (\<exists>d \<in> set dirs. pat = d @ ''/*.html'' \<and> p = d @ ''/'' @ os_path_basename p))
                   (map fst files)),
      html_parse = (\<lambda>p. case map_of files p of
                      Some (r, w, c) \<Rightarrow> if r then c else ParseOSError ''Error reading file''
                    | None \<Rightarrow> ParseOSError ''Error reading file'')\<rparr>"

definition tag_schema :: "string \<Rightarrow> string list xmlschema" where
  "tag_schema t = \<lparr>validate = (\<lambda>d. t \<in> set d), error_log = (\<lambda>d. ''no '' @ t)\<rparr>"

definition sample_strings :: Strings where
  "sample_strings =
     \<lparr>exception_access = ''no access'',
      exception_index = ''no index in'',
      exception_not_white_bear = ''not whitebear'',
      exception_html_syntax_error = ''syntax error'',
      exception_access_html = ''no access to'',
      exception_file_unrecognized = ''unrecognized''\<rparr>"

definition empty_store :: store where
  "empty_store = \<lparr>cells = (\<lambda>a. Map.empty), fresh = 0\<rparr>"

definition new_loader :: "string list loader_state" where
  "new_loader = DirectoryLoader_init (tag_schema ''index'') (tag_schema ''article'')
                  (tag_schema ''menu'') empty_store"

definition web_site :: "string list os_env" where
  "web_site = tree_env [''/web'']
     [(''/web/index.html'', True, True, Parsed [''index'']),
      (''/web/both.html'', True, True, Parsed [''article'', ''menu'']),
      (''/web/menuidx.html'', True, True, Parsed [''menu'', ''index''])]"

definition web_locked :: "string list os_env" where
  "web_locked = tree_env [''/web'']
     [(''/web/index.html'', True, True, Parsed [''index'']),
      (''/web/a.html'', True, True, Parsed [''article'']),
      (''/web/b.html'', False, True, Parsed [''article'']),
      (''/web/c.html'', True, True, Parsed [''menu''])]"

text \<open>The same kind of directory, named by a relative path.\<close>

definition web_relative :: "string list os_env" where
  "web_relative = tree_env [''web'']
     [(''web/index.html'', True, True, Parsed [''index'']),
      (''web/b.html'', False, True, Parsed [''article''])]"

definition two_sites :: "string list os_env" where
  "two_sites = tree_env [''/web1'', ''/web2'']
     [(''/web1/index.html'', True, True, Parsed [''index'']),
      (''/web1/a.html'', True, True, Parsed [''article'']),
      (''/web1/m.html'', True, True, Parsed [''menu'']),
      (''/web2/index.html'', True, True, Parsed [''index'']),
      (''/web2/b.html'', True, True, Parsed [''article''])]"

text \<open>
  For \<open>/bad/bad.html\<close> the parser raises \<^verbatim>\<open>XMLSyntaxError\<close>; the diagnostic
  has the form in which lxml prints it: the parser's message with line and column,
  then the base name of the file and the line in parentheses.
\<close>

definition odd_sites :: "string list os_env" where
  "odd_sites = tree_env [''/bad'', ''/odd'', ''/empty'', ''/alien'']
     [(''/bad/index.html'', True, True, Parsed [''index'']),
      (''/bad/bad.html'', True, True, XMLSyntaxError
         ''switching encoding: encoder error, line 1, column 1 (bad.html, line 1)''),
      (''/odd/index.html'', True, True, Parsed [''index'']),
      (''/odd/google123.html'', True, True, Parsed []),
      (''/odd/other.html'', True, True, Parsed []),
      (''/empty/a.html'', True, True, Parsed [''article'']),
      (''/alien/index.html'', True, True, Parsed [''article''])]"

text \<open>One loader, first on \<open>/web1\<close>, then on \<open>/web2\<close>.\<close>

definition after_web1 :: "string list loader_state" where
  "after_web1 = snd (load_directory two_sites sample_strings ''/web1'' new_loader)"

definition after_web2 :: "string list loader_state" where
  "after_web2 = snd (load_directory two_sites sample_strings ''/web2'' after_web1)"

definition sample_numbers :: Numbers where
  "sample_numbers = \<lparr>article_image_title_min = 3, article_image_title_max = 10,
                      article_image_alt_min = 3, article_image_alt_max = 10\<rparr>"

definition sample_seo_strings :: "char seo_strings" where
  "sample_seo_strings =
     \<lparr>seo_error_link_title_length = ''title length'',
      seo_error_default_value = ''default value'',
      seo_error_image_alt_length = ''alt length'',
      label_article_image_link_title = ''link title'',
      label_article_image_alt = ''alt text''\<rparr>"

text \<open>
  An image with the given link title and alt text, and the same image after a failed
  check and an edit of its link title.
\<close>

definition sample_image :: "string \<Rightarrow> string \<Rightarrow> char BaseImage" where
  "sample_image title alt =
     BaseImage_init title alt ''/img/full.png'' ''/img/thumb.png'' ''full.png'' ''thumb.png''"

definition edited_image :: "char BaseImage" where
  "edited_image =
     (snd (seo_test_self sample_numbers sample_seo_strings (sample_image ''ab'' ''a photo'')))
       \<lparr>link_title := ''a title''\<rparr>"

lemmas seo_sample_simps = sample_image_def BaseImage_init_def sample_numbers_def
  sample_seo_strings_def seo_test_self_def Let_def get_link_title_def get_image_alt_def
  get_status_color_def alt_passes_def title_passes_def

lemmas sample_simps = tree_env_def tag_schema_def sample_strings_def empty_store_def
  new_loader_def DirectoryLoader_init_def os_path_join_def os_path_basename_def newline_def


section \<open>Facts about the loop\<close>

lemma str_in_sublist: "str_in sub s = sublist sub s"
  by (induction s) (auto simp: sublist_Cons_right)

lemma process_file_loader:
  "article_documents (fst (snd (process_file E S path g s))) = article_documents (fst s) \<and>
   menu_documents (fst (snd (process_file E S path g s))) = menu_documents (fst s) \<and>
   directory_path (fst (snd (process_file E S path g s))) = directory_path (fst s) \<and>
   xmlschema_index (fst (snd (process_file E S path g s))) = xmlschema_index (fst s) \<and>
   xmlschema_article (fst (snd (process_file E S path g s))) = xmlschema_article (fst s) \<and>
   xmlschema_menu (fst (snd (process_file E S path g s))) = xmlschema_menu (fst s)"
  by (simp add: process_file_def Let_def
      split: parse_result.splits option.splits doc_type.splits)

lemma prepare_loop_loader:
  "article_documents (fst (snd (prepare_loop E S path gs s))) = article_documents (fst s) \<and>
   menu_documents (fst (snd (prepare_loop E S path gs s))) = menu_documents (fst s) \<and>
   directory_path (fst (snd (prepare_loop E S path gs s))) = directory_path (fst s) \<and>
   xmlschema_index (fst (snd (prepare_loop E S path gs s))) = xmlschema_index (fst s) \<and>
   xmlschema_article (fst (snd (prepare_loop E S path gs s))) = xmlschema_article (fst s) \<and>
   xmlschema_menu (fst (snd (prepare_loop E S path gs s))) = xmlschema_menu (fst s)"
proof (induction gs arbitrary: s)
  case Nil
  show ?case by simp
next
  case (Cons g gs)
  obtain r s' where step: "process_file E S path g s = (r, s')"
    by (cases "process_file E S path g s")
  have keep: "article_documents (fst s') = article_documents (fst s) \<and>
      menu_documents (fst s') = menu_documents (fst s) \<and>
      directory_path (fst s') = directory_path (fst s) \<and>
      xmlschema_index (fst s') = xmlschema_index (fst s) \<and>
      xmlschema_article (fst s') = xmlschema_article (fst s) \<and>
      xmlschema_menu (fst s') = xmlschema_menu (fst s)"
    using process_file_loader [of E S path g s] step by simp
  show ?case
  proof (cases r)
    case None
    then show ?thesis using step keep Cons.IH [of s'] by simp
  next
    case (Some e)
    then show ?thesis using step keep by simp
  qed
qed

lemma prepare_loop_append:
  "prepare_loop E S path (xs @ ys) s =
     (case prepare_loop E S path xs s of
        (Some e, s') \<Rightarrow> (Some e, s')
      | (None, s') \<Rightarrow> prepare_loop E S path ys s')"
  by (induction xs arbitrary: s) (auto split: prod.splits option.splits)

lemma process_file_dom:
  "dom (cells (snd s) a) \<subseteq> dom (cells (snd (snd (process_file E S path g s))) a)"
  by (auto simp: process_file_def Let_def dict_set_def
      split: parse_result.splits option.splits doc_type.splits)

lemma process_file_other_keys:
  "k \<noteq> os_path_basename (os_path_join path g) \<Longrightarrow>
     cells (snd (snd (process_file E S path g s))) a k = cells (snd s) a k"
  by (simp add: process_file_def Let_def dict_set_def
      split: parse_result.splits option.splits doc_type.splits)

lemma process_file_index:
  "index_document (fst s) \<noteq> None \<Longrightarrow>
     index_document (fst (snd (process_file E S path g s))) \<noteq> None"
  by (simp add: process_file_def Let_def
      split: parse_result.splits option.splits doc_type.splits)

lemma prepare_loop_Cons:
  "prepare_loop E S path (g # gs) s =
     (if fst (process_file E S path g s) = None
      then prepare_loop E S path gs (snd (process_file E S path g s))
      else process_file E S path g s)"
  by (cases "process_file E S path g s") (auto split: option.splits)

lemma prepare_loop_dom:
  "dom (cells (snd s) a) \<subseteq> dom (cells (snd (snd (prepare_loop E S path gs s))) a)"
proof (induction gs arbitrary: s)
  case Nil
  show ?case by simp
next
  case (Cons g gs)
  have step: "dom (cells (snd s) a) \<subseteq> dom (cells (snd (snd (process_file E S path g s))) a)"
    by (rule process_file_dom)
  show ?case
  proof (cases "fst (process_file E S path g s) = None")
    case True
    then have "prepare_loop E S path (g # gs) s =
        prepare_loop E S path gs (snd (process_file E S path g s))"
      by (simp add: prepare_loop_Cons del: prepare_loop.simps)
    then show ?thesis
      using order_trans [OF step Cons.IH [of "snd (process_file E S path g s)"]] by simp
  next
    case False
    then have "prepare_loop E S path (g # gs) s = process_file E S path g s"
      by (auto simp: prepare_loop_Cons simp del: prepare_loop.simps)
    then show ?thesis using step by simp
  qed
qed

lemma prepare_loop_other_keys:
  "k \<notin> os_path_basename ` os_path_join path ` set gs \<Longrightarrow>
     cells (snd (snd (prepare_loop E S path gs s))) a k = cells (snd s) a k"
proof (induction gs arbitrary: s)
  case Nil
  show ?case by simp
next
  case (Cons g gs)
  have step: "cells (snd (snd (process_file E S path g s))) a k = cells (snd s) a k"
    using Cons.prems by (intro process_file_other_keys) auto
  have rest: "k \<notin> os_path_basename ` os_path_join path ` set gs"
    using Cons.prems by auto
  show ?case
    using step Cons.IH [OF rest, of "snd (process_file E S path g s)"]
    by (simp add: prepare_loop_Cons del: prepare_loop.simps)
qed

lemma prepare_loop_index:
  "index_document (fst s) \<noteq> None \<Longrightarrow>
     index_document (fst (snd (prepare_loop E S path gs s))) \<noteq> None"
proof (induction gs arbitrary: s)
  case Nil
  then show ?case by simp
next
  case (Cons g gs)
  have step: "index_document (fst (snd (process_file E S path g s))) \<noteq> None"
    using Cons.prems by (rule process_file_index)
  show ?case
    using step Cons.IH [OF step]
    by (simp add: prepare_loop_Cons del: prepare_loop.simps)
qed

lemma load_directory_cases:
  "load_directory E S path s =
     (case is_white_bear_directory E S ((fst s)\<lparr>directory_path := path\<rparr>) path of
        Inl e \<Rightarrow> (Some e, (fst s)\<lparr>directory_path := path\<rparr>, snd s)
      | Inr ok \<Rightarrow>
          if ok then prepare_loop E S path (glob_glob E (path @ ''/*.html''))
                       ((fst s)\<lparr>directory_path := path\<rparr>, snd s)
          else (None, (fst s)\<lparr>directory_path := path\<rparr>, snd s))"
  by (simp add: load_directory_def Let_def prepare_documents_def split: sum.splits)

lemma load_directory_loader:
  "article_documents (fst (snd (load_directory E S path s))) = article_documents (fst s) \<and>
   menu_documents (fst (snd (load_directory E S path s))) = menu_documents (fst s)"
  by (simp add: load_directory_cases prepare_loop_loader split: sum.splits)

lemma process_file_share:
  "articles_share_menus s \<Longrightarrow> articles_share_menus (snd (process_file E S path g s))"
  by (auto simp: articles_share_menus_def get_articles_def process_file_def Let_def dict_set_def
      split: parse_result.splits option.splits doc_type.splits if_splits)

lemma prepare_loop_share:
  "articles_share_menus s \<Longrightarrow> articles_share_menus (snd (prepare_loop E S path gs s))"
proof (induction gs arbitrary: s)
  case Nil
  then show ?case by simp
next
  case (Cons g gs)
  have step: "articles_share_menus (snd (process_file E S path g s))"
    using Cons.prems by (rule process_file_share)
  show ?case
    using step Cons.IH [OF step]
    by (simp add: prepare_loop_Cons del: prepare_loop.simps)
qed

lemma load_directory_share:
  assumes "articles_share_menus s"
  shows "articles_share_menus (snd (load_directory E S path s))"
proof -
  have start: "articles_share_menus ((fst s)\<lparr>directory_path := path\<rparr>, snd s)"
    using assms by (simp add: articles_share_menus_def get_articles_def)
  show ?thesis
    using start prepare_loop_share [OF start, of E S path]
    by (simp add: load_directory_cases split: sum.splits)
qed

lemma init_share:
  "articles_share_menus (DirectoryLoader_init s_index s_article s_menu st0)"
  by (simp add: articles_share_menus_def DirectoryLoader_init_def get_articles_def)

lemma load_all_share:
  "articles_share_menus s \<Longrightarrow> articles_share_menus (load_all S loads s)"
proof (induction loads arbitrary: s)
  case Nil
  then show ?case by simp
next
  case (Cons l loads)
  obtain E path where l: "l = (E, path)" by (cases l)
  show ?case
    using Cons.IH [OF load_directory_share [OF Cons.prems, of E S path]] l by simp
qed

lemma classified_as_schemas:
  "xmlschema_index ld' = xmlschema_index ld \<Longrightarrow> xmlschema_article ld' = xmlschema_article ld \<Longrightarrow>
   xmlschema_menu ld' = xmlschema_menu ld \<Longrightarrow>
   classified_as E ld' path g t = classified_as E ld path g t"
  by (simp add: classified_as_def classify_def split: parse_result.splits)

lemma process_file_adds:
  "classified_as E (fst s) path g t \<Longrightarrow> t \<noteq> TYPE_INDEX \<Longrightarrow>
     os_path_basename (os_path_join path g)
       \<in> dom (cells (snd (snd (process_file E S path g s)))
                (if t = TYPE_ARTICLE then article_documents (fst s) else menu_documents (fst s)))"
  by (cases t)
    (auto simp: classified_as_def process_file_def Let_def dict_set_def
      split: parse_result.splits)

lemma process_file_index_same:
  "\<not> classified_as E (fst s) path g TYPE_INDEX \<Longrightarrow>
     index_document (fst (snd (process_file E S path g s))) = index_document (fst s)"
  by (auto simp: classified_as_def process_file_def Let_def
      split: parse_result.splits option.splits doc_type.splits)

lemma process_file_index_set:
  "classified_as E (fst s) path g TYPE_INDEX \<Longrightarrow>
     index_document (fst (snd (process_file E S path g s)))
       = Some (document_of E path g TYPE_INDEX None)"
  by (auto simp: classified_as_def process_file_def Let_def document_of_def
      split: parse_result.splits)

lemma process_file_classified:
  "classified_as E (fst (snd (process_file E S path g s))) path g' t
     = classified_as E (fst s) path g' t"
  by (rule classified_as_schemas) (simp_all add: process_file_loader)

lemma prepare_loop_adds:
  "fst (prepare_loop E S path gs s) = None \<Longrightarrow> g \<in> set gs \<Longrightarrow>
   classified_as E (fst s) path g t \<Longrightarrow> t \<noteq> TYPE_INDEX \<Longrightarrow>
     os_path_basename (os_path_join path g)
       \<in> dom (cells (snd (snd (prepare_loop E S path gs s)))
                (if t = TYPE_ARTICLE then article_documents (fst s) else menu_documents (fst s)))"
proof (induction gs arbitrary: s)
  case Nil
  then show ?case by simp
next
  case (Cons x xs)
  let ?s1 = "snd (process_file E S path x s)"
  let ?a = "if t = TYPE_ARTICLE then article_documents (fst s) else menu_documents (fst s)"
  have ok: "fst (process_file E S path x s) = None"
    using Cons.prems(1) by (auto simp: prepare_loop_Cons simp del: prepare_loop.simps split: if_splits)
  then have loop: "prepare_loop E S path (x # xs) s = prepare_loop E S path xs ?s1"
    by (simp add: prepare_loop_Cons del: prepare_loop.simps)
  have rest: "fst (prepare_loop E S path xs ?s1) = None"
    using Cons.prems(1) loop by simp
  have addr: "(if t = TYPE_ARTICLE then article_documents (fst ?s1) else menu_documents (fst ?s1)) = ?a"
    by (simp add: process_file_loader)
  show ?case
  proof (cases "g \<in> set xs")
    case True
    have "classified_as E (fst ?s1) path g t"
      using Cons.prems(3) by (simp add: process_file_classified)
    from Cons.IH [OF rest True this Cons.prems(4)] show ?thesis
      using loop addr by simp
  next
    case False
    then have "g = x" using Cons.prems(2) by simp
    then have "os_path_basename (os_path_join path g) \<in> dom (cells (snd ?s1) ?a)"
      using process_file_adds [OF Cons.prems(3) Cons.prems(4), of S] by simp
    then show ?thesis
      using prepare_loop_dom [of ?s1 ?a E S path xs] loop by auto
  qed
qed

lemma prepare_loop_index_same:
  "\<forall>g \<in> set gs. \<not> classified_as E (fst s) path g TYPE_INDEX \<Longrightarrow>
     index_document (fst (snd (prepare_loop E S path gs s))) = index_document (fst s)"
proof (induction gs arbitrary: s)
  case Nil
  then show ?case by simp
next
  case (Cons x xs)
  let ?s1 = "snd (process_file E S path x s)"
  have step: "index_document (fst ?s1) = index_document (fst s)"
    using Cons.prems by (intro process_file_index_same) simp
  have "\<forall>g \<in> set xs. \<not> classified_as E (fst ?s1) path g TYPE_INDEX"
    using Cons.prems by (simp add: process_file_classified)
  from Cons.IH [OF this] show ?case
    using step by (simp add: prepare_loop_Cons del: prepare_loop.simps)
qed

lemma prepare_loop_index_cases:
  "index_document (fst (snd (prepare_loop E S path gs s))) = index_document (fst s) \<or>
   (\<exists>g \<in> set gs. classified_as E (fst s) path g TYPE_INDEX \<and>
      index_document (fst (snd (prepare_loop E S path gs s)))
        = Some (document_of E path g TYPE_INDEX None))"
proof (induction gs arbitrary: s)
  case Nil
  show ?case by simp
next
  case (Cons x xs)
  let ?s1 = "snd (process_file E S path x s)"
  have first: "index_document (fst ?s1) = index_document (fst s) \<or>
      (classified_as E (fst s) path x TYPE_INDEX \<and>
       index_document (fst ?s1) = Some (document_of E path x TYPE_INDEX None))"
    using process_file_index_same [of E s path x S] process_file_index_set [of E s path x S]
    by blast
  show ?case
  proof (cases "fst (process_file E S path x s) = None")
    case True
    then have loop: "prepare_loop E S path (x # xs) s = prepare_loop E S path xs ?s1"
      by (simp add: prepare_loop_Cons del: prepare_loop.simps)
    show ?thesis
      using Cons.IH [of ?s1] first unfolding loop process_file_classified
      by auto
  next
    case False
    then have "prepare_loop E S path (x # xs) s = process_file E S path x s"
      by (auto simp: prepare_loop_Cons simp del: prepare_loop.simps)
    then show ?thesis using first by auto
  qed
qed

lemma prepare_loop_index_set:
  "fst (prepare_loop E S path gs s) = None \<Longrightarrow> g \<in> set gs \<Longrightarrow>
   classified_as E (fst s) path g TYPE_INDEX \<Longrightarrow>
     \<exists>g' \<in> set gs. classified_as E (fst s) path g' TYPE_INDEX \<and>
       index_document (fst (snd (prepare_loop E S path gs s)))
         = Some (document_of E path g' TYPE_INDEX None)"
proof (induction gs arbitrary: s)
  case Nil
  then show ?case by simp
next
  case (Cons x xs)
  let ?s1 = "snd (process_file E S path x s)"
  have ok: "fst (process_file E S path x s) = None"
    using Cons.prems(1) by (auto simp: prepare_loop_Cons simp del: prepare_loop.simps split: if_splits)
  then have loop: "prepare_loop E S path (x # xs) s = prepare_loop E S path xs ?s1"
    by (simp add: prepare_loop_Cons del: prepare_loop.simps)
  have rest: "fst (prepare_loop E S path xs ?s1) = None"
    using Cons.prems(1) loop by simp
  show ?case
  proof (cases "g \<in> set xs")
    case True
    have "classified_as E (fst ?s1) path g TYPE_INDEX"
      using Cons.prems(3) by (simp add: process_file_classified)
    from Cons.IH [OF rest True this] show ?thesis
      unfolding loop process_file_classified by auto
  next
    case False
    then have gx: "g = x" using Cons.prems(2) by simp
    have set: "index_document (fst ?s1) = Some (document_of E path x TYPE_INDEX None)"
      using process_file_index_set [of E s path x S] Cons.prems(3) gx by simp
    show ?thesis
      using prepare_loop_index_cases [of E S path xs ?s1] set Cons.prems(3) gx
      unfolding loop process_file_classified by auto
  qed
qed


lemma is_white_bear_directory_True:
  "is_white_bear_directory E S ld path = Inr ok \<Longrightarrow> ok"
  by (auto simp: is_white_bear_directory_def split: if_splits parse_result.splits)

lemma load_directory_success:
  "fst (load_directory E S path s) = None \<Longrightarrow>
     load_directory E S path s =
       prepare_loop E S path (glob_glob E (path @ ''/*.html''))
         ((fst s)\<lparr>directory_path := path\<rparr>, snd s)"
  by (auto simp: load_directory_cases split: sum.splits dest: is_white_bear_directory_True)

lemma load_directory_index_cases:
  "index_document (fst (snd (load_directory E S path s))) = index_document (fst s) \<or>
   index_document (fst (snd (load_directory E S path s)))
     = index_document (fst (snd (prepare_loop E S path (glob_glob E (path @ ''/*.html''))
         ((fst s)\<lparr>directory_path := path\<rparr>, snd s))))"
  by (auto simp: load_directory_cases split: sum.splits)

lemma classified_as_path:
  "classified_as E (ld\<lparr>directory_path := p\<rparr>) path g t = classified_as E ld path g t"
  by (rule classified_as_schemas) simp_all

lemma load_directory_adds:
  assumes "fst (load_directory E S path s) = None"
    and "g \<in> set (glob_glob E (path @ ''/*.html''))"
    and "classified_as E (fst s) path g t" and "t \<noteq> TYPE_INDEX"
  shows "os_path_basename (os_path_join path g)
           \<in> dom (cells (snd (snd (load_directory E S path s)))
                    (if t = TYPE_ARTICLE then article_documents (fst s) else menu_documents (fst s)))"
proof -
  let ?s0 = "((fst s)\<lparr>directory_path := path\<rparr>, snd s)"
  have eq: "load_directory E S path s = prepare_loop E S path (glob_glob E (path @ ''/*.html'')) ?s0"
    using assms(1) by (rule load_directory_success)
  have ok: "fst (prepare_loop E S path (glob_glob E (path @ ''/*.html'')) ?s0) = None"
    using assms(1) unfolding eq .
  have c: "classified_as E (fst ?s0) path g t"
    using assms(3) by (simp add: classified_as_path)
  show ?thesis
    using prepare_loop_adds [OF ok assms(2) c assms(4)] unfolding eq
    by (simp split: if_splits)
qed

lemma load_directory_index_set:
  assumes "fst (load_directory E S path s) = None"
    and "g \<in> set (glob_glob E (path @ ''/*.html''))"
    and "classified_as E (fst s) path g TYPE_INDEX"
  shows "\<exists>g' \<in> set (glob_glob E (path @ ''/*.html'')).
           classified_as E (fst s) path g' TYPE_INDEX \<and>
           index_document (fst (snd (load_directory E S path s)))
             = Some (document_of E path g' TYPE_INDEX None)"
proof -
  let ?s0 = "((fst s)\<lparr>directory_path := path\<rparr>, snd s)"
  have eq: "load_directory E S path s = prepare_loop E S path (glob_glob E (path @ ''/*.html'')) ?s0"
    using assms(1) by (rule load_directory_success)
  have ok: "fst (prepare_loop E S path (glob_glob E (path @ ''/*.html'')) ?s0) = None"
    using assms(1) unfolding eq .
  have c: "classified_as E (fst ?s0) path g TYPE_INDEX"
    using assms(3) by (simp add: classified_as_path)
  show ?thesis
    using prepare_loop_index_set [OF ok assms(2) c] unfolding eq by (simp add: classified_as_path)
qed

lemma load_directory_index_same:
  assumes "\<forall>g \<in> set (glob_glob E (path @ ''/*.html'')). \<not> classified_as E (fst s) path g TYPE_INDEX"
  shows "index_document (fst (snd (load_directory E S path s))) = index_document (fst s)"
proof -
  let ?s0 = "((fst s)\<lparr>directory_path := path\<rparr>, snd s)"
  have "\<forall>g \<in> set (glob_glob E (path @ ''/*.html'')). \<not> classified_as E (fst ?s0) path g TYPE_INDEX"
    using assms by (simp add: classified_as_path)
  from prepare_loop_index_same [OF this, of S] show ?thesis
    using load_directory_index_cases [of E S path s] by auto
qed

lemma os_path_join_absolute:
  "g \<noteq> [] \<Longrightarrow> hd g = CHR ''/'' \<Longrightarrow> os_path_join path g = g"
  by (simp add: os_path_join_def)



section \<open>Classification precedence\<close>

text \<open>
  C1. For a readable and writable file that parses, the loop body tests the schemas in
  the order article, menu, index and the first one satisfied decides: the document is
  stored under the file's base name in the article dictionary, in the menu dictionary or
  as the index document, and the other two collections are left as they were. A later
  schema has no say: if the article schema accepts, the verdict is article for every
  menu and index schema (so a file that satisfies both the article and the menu schema
  is an article, never a menu), and if the menu schema accepts after the article schema
  refused, the verdict is menu for every index schema.
\<close>

theorem classification_precedence:
  assumes "path_isfile E (os_path_join path g)"
    and "access_R E (os_path_join path g)" and "access_W E (os_path_join path g)"
    and "html_parse E (os_path_join path (os_path_join path g)) = Parsed d"
    and "article_documents ld \<noteq> menu_documents ld"
  shows "(validate (xmlschema_article ld) d \<longrightarrow>
            (\<forall>m i. classify (ld\<lparr>xmlschema_menu := m, xmlschema_index := i\<rparr>) d = Some TYPE_ARTICLE) \<and>
            (let r = process_file E S path g (ld, st) in
               fst r = None \<and>
               get_articles (snd r) (os_path_basename (os_path_join path g)) =
                 Some \<lparr>doc_filename = os_path_basename (os_path_join path g),
                       doc_file_path = path_realpath E (os_path_join path g),
                       doc_type = TYPE_ARTICLE, doc_menus = Some (menu_documents ld)\<rparr> \<and>
               get_menus (snd r) = get_menus (ld, st) \<and>
               get_index_page (snd r) = get_index_page (ld, st))) \<and>
         (\<not> validate (xmlschema_article ld) d \<and> validate (xmlschema_menu ld) d \<longrightarrow>
            (\<forall>i. classify (ld\<lparr>xmlschema_index := i\<rparr>) d = Some TYPE_MENU) \<and>
            (let r = process_file E S path g (ld, st) in
               fst r = None \<and>
               get_menus (snd r) (os_path_basename (os_path_join path g)) =
                 Some \<lparr>doc_filename = os_path_basename (os_path_join path g),
                       doc_file_path = path_realpath E (os_path_join path g),
                       doc_type = TYPE_MENU, doc_menus = None\<rparr> \<and>
               get_articles (snd r) = get_articles (ld, st) \<and>
               get_index_page (snd r) = get_index_page (ld, st))) \<and>
         (\<not> validate (xmlschema_article ld) d \<and> \<not> validate (xmlschema_menu ld) d \<and>
          validate (xmlschema_index ld) d \<longrightarrow>
            (let r = process_file E S path g (ld, st) in
               fst r = None \<and>
               get_index_page (snd r) =
                 Some \<lparr>doc_filename = os_path_basename (os_path_join path g),
                       doc_file_path = path_realpath E (os_path_join path g),
                       doc_type = TYPE_INDEX, doc_menus = None\<rparr> \<and>
               get_articles (snd r) = get_articles (ld, st) \<and>
               get_menus (snd r) = get_menus (ld, st)))"
  using assms
  by (simp add: process_file_def classify_def Let_def get_articles_def get_menus_def
      get_index_page_def dict_set_def)


theorem classification_precedence_witness:
  "fst (process_file web_site sample_strings ''/web'' ''/web/both.html'' new_loader) = None \<and>
   map_option doc_type
     (get_articles (snd (process_file web_site sample_strings ''/web'' ''/web/both.html'' new_loader))
        ''both.html'') = Some TYPE_ARTICLE \<and>
   get_menus (snd (process_file web_site sample_strings ''/web'' ''/web/both.html'' new_loader))
     ''both.html'' = None \<and>
   map_option doc_type
     (get_menus (snd (process_file web_site sample_strings ''/web'' ''/web/menuidx.html'' new_loader))
        ''menuidx.html'') = Some TYPE_MENU \<and>
   map_option doc_type
     (get_index_page (snd (process_file web_site sample_strings ''/web'' ''/web/index.html'' new_loader)))
       = Some TYPE_INDEX"
proof -
  have nl: "new_loader = (fst new_loader, snd new_loader)"
    by simp
  have distinct: "article_documents (fst new_loader) \<noteq> menu_documents (fst new_loader)"
    by (simp add: sample_simps)
  have both: "path_isfile web_site (os_path_join ''/web'' ''/web/both.html'')"
    "access_R web_site (os_path_join ''/web'' ''/web/both.html'')"
    "access_W web_site (os_path_join ''/web'' ''/web/both.html'')"
    "html_parse web_site (os_path_join ''/web'' (os_path_join ''/web'' ''/web/both.html''))
       = Parsed [''article'', ''menu'']"
    by (simp_all add: web_site_def sample_simps)
  have menuidx: "path_isfile web_site (os_path_join ''/web'' ''/web/menuidx.html'')"
    "access_R web_site (os_path_join ''/web'' ''/web/menuidx.html'')"
    "access_W web_site (os_path_join ''/web'' ''/web/menuidx.html'')"
    "html_parse web_site (os_path_join ''/web'' (os_path_join ''/web'' ''/web/menuidx.html''))
       = Parsed [''menu'', ''index'']"
    by (simp_all add: web_site_def sample_simps)
  have index: "path_isfile web_site (os_path_join ''/web'' ''/web/index.html'')"
    "access_R web_site (os_path_join ''/web'' ''/web/index.html'')"
    "access_W web_site (os_path_join ''/web'' ''/web/index.html'')"
    "html_parse web_site (os_path_join ''/web'' (os_path_join ''/web'' ''/web/index.html''))
       = Parsed [''index'']"
    by (simp_all add: web_site_def sample_simps)
  have names: "os_path_basename (os_path_join ''/web'' ''/web/both.html'') = ''both.html''"
    "os_path_basename (os_path_join ''/web'' ''/web/menuidx.html'') = ''menuidx.html''"
    by (simp_all add: sample_simps)
  have verdicts:
    "validate (xmlschema_article (fst new_loader)) [''article'', ''menu'']"
    "validate (xmlschema_menu (fst new_loader)) [''article'', ''menu'']"
    "\<not> validate (xmlschema_article (fst new_loader)) [''menu'', ''index'']"
    "validate (xmlschema_menu (fst new_loader)) [''menu'', ''index'']"
    "\<not> validate (xmlschema_article (fst new_loader)) [''index'']"
    "\<not> validate (xmlschema_menu (fst new_loader)) [''index'']"
    "validate (xmlschema_index (fst new_loader)) [''index'']"
    by (simp_all add: sample_simps)
  have empty: "get_menus new_loader = Map.empty"
    by (simp add: get_menus_def sample_simps)
  show ?thesis
    using classification_precedence [OF both distinct, of sample_strings "snd new_loader"]
      classification_precedence [OF menuidx distinct, of sample_strings "snd new_loader"]
      classification_precedence [OF index distinct, of sample_strings "snd new_loader"]
      verdicts names empty
    by (simp add: Let_def)
qed


section \<open>A file without permission\<close>

text \<open>
  C2, as the code has it. The path the loop tests for an enumerated entry \<open>g\<close> is
  \<^verbatim>\<open>os.path.join\<close> of the directory path and \<open>g\<close>; for an absolute directory
  path that is \<open>g\<close> itself. When the gate has passed, the entries enumerated before
  \<open>g\<close> have been processed without an exception and the path tested for \<open>g\<close>
  is a regular file that is not readable or not writable, \<^verbatim>\<open>load_directory\<close>
  raises \<^verbatim>\<open>AccessException\<close> with the access message followed by that path, and
  the loader and its dictionaries are exactly as the entries before \<open>g\<close> left them:
  nothing is rolled back.
\<close>

theorem access_failure_keeps_partial_results:
  assumes gate: "is_white_bear_directory E S ((fst s)\<lparr>directory_path := path\<rparr>) path = Inr True"
    and files: "glob_glob E (path @ ''/*.html'') = pre @ g # post"
    and before: "prepare_loop E S path pre ((fst s)\<lparr>directory_path := path\<rparr>, snd s) = (None, s')"
    and isfile: "path_isfile E (os_path_join path g)"
    and locked: "\<not> access_R E (os_path_join path g) \<or> \<not> access_W E (os_path_join path g)"
  shows "load_directory E S path s =
           (Some (AccessException (exception_access_html S @ '' '' @ os_path_join path g)), s')"
proof -
  have step: "process_file E S path g s' =
      (Some (AccessException (exception_access_html S @ '' '' @ os_path_join path g)), s')"
    using isfile locked by (auto simp: process_file_def Let_def)
  have "prepare_loop E S path (pre @ g # post) ((fst s)\<lparr>directory_path := path\<rparr>, snd s) =
      (Some (AccessException (exception_access_html S @ '' '' @ os_path_join path g)), s')"
    using before step by (simp add: prepare_loop_append)
  then show ?thesis
    using gate files by (simp add: load_directory_cases)
qed

text \<open>
  The claim as stated fails: in \<open>/web\<close> the file \<open>b.html\<close> is not readable
  and everything else is valid; the load raises the access error, and afterwards the
  article dictionary holds \<open>a.html\<close> and the index document is set.
\<close>

theorem access_failure_counterexample:
  "fst (load_directory web_locked sample_strings ''/web'' new_loader)
     = Some (AccessException ''no access to /web/b.html'') \<and>
   map_option doc_type
     (get_articles (snd (load_directory web_locked sample_strings ''/web'' new_loader)) ''a.html'')
     = Some TYPE_ARTICLE \<and>
   map_option doc_type
     (get_index_page (snd (load_directory web_locked sample_strings ''/web'' new_loader)))
     = Some TYPE_INDEX"
  by code_simp

theorem access_failure_keeps_partial_results_witness:
  "fst (load_directory web_locked sample_strings ''/web'' new_loader)
     = Some (AccessException ''no access to /web/b.html'') \<and>
   snd (load_directory web_locked sample_strings ''/web'' new_loader)
     = snd (prepare_loop web_locked sample_strings ''/web'' [''/web/index.html'', ''/web/a.html'']
              ((fst new_loader)\<lparr>directory_path := ''/web''\<rparr>, snd new_loader))"
proof -
  let ?s0 = "((fst new_loader)\<lparr>directory_path := ''/web''\<rparr>, snd new_loader)"
  let ?pre = "[''/web/index.html'', ''/web/a.html'']"
  have gate: "is_white_bear_directory web_locked sample_strings
      ((fst new_loader)\<lparr>directory_path := ''/web''\<rparr>) ''/web'' = Inr True"
    by code_simp
  have files: "glob_glob web_locked (''/web'' @ ''/*.html'') = ?pre @ ''/web/b.html'' # [''/web/c.html'']"
    by code_simp
  have "fst (prepare_loop web_locked sample_strings ''/web'' ?pre ?s0) = None"
    by code_simp
  then have before: "prepare_loop web_locked sample_strings ''/web'' ?pre ?s0 =
      (None, snd (prepare_loop web_locked sample_strings ''/web'' ?pre ?s0))"
    by (simp add: prod_eq_iff)
  have isfile: "path_isfile web_locked (os_path_join ''/web'' ''/web/b.html'')"
    by code_simp
  have locked: "\<not> access_R web_locked (os_path_join ''/web'' ''/web/b.html'')
      \<or> \<not> access_W web_locked (os_path_join ''/web'' ''/web/b.html'')"
    by code_simp
  have name: "''no access to'' @ '' '' @ os_path_join ''/web'' ''/web/b.html'' = ''no access to /web/b.html''"
    by code_simp
  have msg: "exception_access_html sample_strings = ''no access to''"
    by code_simp
  show ?thesis
    using access_failure_keeps_partial_results [OF gate files before isfile locked] name msg
    by simp
qed

text \<open>
  Why the tested path must be a regular file: for the relative directory path
  \<open>web\<close> the entry \<open>web/b.html\<close> is tested as \<open>web/web/b.html\<close>, which
  does not exist, so the unreadable file is passed over like every other entry and the
  load ends without an exception and without a document.
\<close>

lemma relative_path_skips_files:
  "glob_glob web_relative (''web'' @ ''/*.html'') = [''web/index.html'', ''web/b.html''] \<and>
   access_R web_relative ''web/b.html'' = False \<and>
   os_path_join ''web'' ''web/b.html'' = ''web/web/b.html'' \<and>
   path_isfile web_relative ''web/web/b.html'' = False \<and>
   fst (load_directory web_relative sample_strings ''web'' new_loader) = None \<and>
   get_index_page (snd (load_directory web_relative sample_strings ''web'' new_loader)) = None"
  by code_simp


section \<open>The menus an article refers to\<close>

text \<open>
  C3, as the code has it. After any sequence of loads with one loader, every article
  in the article dictionary refers to the loader's own menu dictionary: what the
  article sees is exactly the menu mapping of the loader at that moment, also the menus
  classified after the article in the same pass.
\<close>

theorem article_menu_reference:
  assumes "s = load_all S loads (DirectoryLoader_init s_index s_article s_menu st0)"
    and "get_articles s k = Some d"
  shows "\<exists>a. doc_menus d = Some a \<and> cells (snd s) a = get_menus s"
  using load_all_share [OF init_share, of S loads s_index s_article s_menu st0] assms
  by (auto simp: articles_share_menus_def get_menus_def)

text \<open>
  The claim as stated fails in its last part: the menu dictionary is never emptied, so
  after \<open>/web1\<close> and then \<open>/web2\<close> the article \<open>b.html\<close> of \<open>/web2\<close>
  sees the menu \<open>m.html\<close> of \<open>/web1\<close>, although \<open>/web2\<close> has no such file.
\<close>

theorem article_menu_reference_counterexample:
  "fst (load_directory two_sites sample_strings ''/web1'' new_loader) = None \<and>
   fst (load_directory two_sites sample_strings ''/web2'' after_web1) = None \<and>
   glob_glob two_sites ''/web2/*.html'' = [''/web2/index.html'', ''/web2/b.html''] \<and>
   get_articles after_web2 ''b.html'' =
     Some \<lparr>doc_filename = ''b.html'', doc_file_path = ''/web2/b.html'',
           doc_type = TYPE_ARTICLE, doc_menus = Some 1\<rparr> \<and>
   map_option doc_file_path (cells (snd after_web2) 1 ''m.html'') = Some ''/web1/m.html''"
  by code_simp

theorem article_menu_reference_witness:
  "after_web1 = load_all sample_strings [(two_sites, ''/web1'')] new_loader \<and>
   get_articles after_web1 ''a.html'' =
     Some \<lparr>doc_filename = ''a.html'', doc_file_path = ''/web1/a.html'',
           doc_type = TYPE_ARTICLE, doc_menus = Some 1\<rparr> \<and>
   cells (snd after_web1) 1 = get_menus after_web1 \<and>
   map_option doc_type (get_menus after_web1 ''m.html'') = Some TYPE_MENU"
proof -
  have s: "after_web1 = load_all sample_strings [(two_sites, ''/web1'')]
      (DirectoryLoader_init (tag_schema ''index'') (tag_schema ''article'') (tag_schema ''menu'') empty_store)"
    by (simp add: after_web1_def new_loader_def)
  have a: "get_articles after_web1 ''a.html'' =
     Some \<lparr>doc_filename = ''a.html'', doc_file_path = ''/web1/a.html'',
           doc_type = TYPE_ARTICLE, doc_menus = Some 1\<rparr>"
    by code_simp
  have m: "map_option doc_type (get_menus after_web1 ''m.html'') = Some TYPE_MENU"
    by code_simp
  show ?thesis
    using article_menu_reference [OF s a] s a m
    by (simp add: new_loader_def)
qed


section \<open>Loading again\<close>

text \<open>
  C4, as the code has it. \<^verbatim>\<open>load_directory\<close> never empties the dictionaries and
  never resets the index document; a load merges its documents into what the loader
  holds. Every file name in the article or menu mapping before a load is still in it
  afterwards, and an entry whose name is not the base name of a path tested by this
  load is unchanged. An index document that was set stays set, and the index document is
  unchanged when this load classifies no entry as index. When the load succeeds, every
  entry it classifies as article or menu has its base name in the article or menu
  mapping afterwards, and if it classifies an entry as index, the index document
  afterwards is the document of an entry this load classified as index.
\<close>

theorem reload_keeps_previous_session:
  "dom (get_articles s) \<subseteq> dom (get_articles (snd (load_directory E S path s))) \<and>
   dom (get_menus s) \<subseteq> dom (get_menus (snd (load_directory E S path s))) \<and>
   (get_index_page s \<noteq> None \<longrightarrow> get_index_page (snd (load_directory E S path s)) \<noteq> None) \<and>
   (\<forall>k. k \<notin> os_path_basename ` os_path_join path ` set (glob_glob E (path @ ''/*.html'')) \<longrightarrow>
      get_articles (snd (load_directory E S path s)) k = get_articles s k \<and>
      get_menus (snd (load_directory E S path s)) k = get_menus s k) \<and>
   ((\<forall>g \<in> set (glob_glob E (path @ ''/*.html'')). \<not> classified_as E (fst s) path g TYPE_INDEX) \<longrightarrow>
      get_index_page (snd (load_directory E S path s)) = get_index_page s) \<and>
   (fst (load_directory E S path s) = None \<longrightarrow>
      (\<forall>g \<in> set (glob_glob E (path @ ''/*.html'')).
         (classified_as E (fst s) path g TYPE_ARTICLE \<longrightarrow>
            os_path_basename (os_path_join path g)
              \<in> dom (get_articles (snd (load_directory E S path s)))) \<and>
         (classified_as E (fst s) path g TYPE_MENU \<longrightarrow>
            os_path_basename (os_path_join path g)
              \<in> dom (get_menus (snd (load_directory E S path s)))) \<and>
         (classified_as E (fst s) path g TYPE_INDEX \<longrightarrow>
            (\<exists>g' \<in> set (glob_glob E (path @ ''/*.html'')).
               classified_as E (fst s) path g' TYPE_INDEX \<and>
               get_index_page (snd (load_directory E S path s))
                 = Some (document_of E path g' TYPE_INDEX None)))))"
proof -
  let ?gs = "glob_glob E (path @ ''/*.html'')"
  let ?s' = "snd (load_directory E S path s)"
  let ?s0 = "((fst s)\<lparr>directory_path := path\<rparr>, snd s)"
  have dom: "\<And>a. dom (cells (snd s) a) \<subseteq> dom (cells (snd ?s') a)"
    using prepare_loop_dom [of ?s0 _ E S path ?gs]
    by (simp add: load_directory_cases split: sum.splits)
  have idx: "index_document (fst s) \<noteq> None \<Longrightarrow> index_document (fst ?s') \<noteq> None"
    using prepare_loop_index [of ?s0 E S path ?gs]
    by (simp add: load_directory_cases split: sum.splits)
  have keys: "\<And>a k. k \<notin> os_path_basename ` os_path_join path ` set ?gs \<Longrightarrow>
      cells (snd ?s') a k = cells (snd s) a k"
    using prepare_loop_other_keys [of _ path ?gs E S ?s0]
    by (simp add: load_directory_cases split: sum.splits)
  have art: "\<And>g. fst (load_directory E S path s) = None \<Longrightarrow> g \<in> set ?gs \<Longrightarrow>
      classified_as E (fst s) path g TYPE_ARTICLE \<Longrightarrow>
      os_path_basename (os_path_join path g) \<in> dom (cells (snd ?s') (article_documents (fst s)))"
    using load_directory_adds [of E S path s _ TYPE_ARTICLE] by simp
  have menu: "\<And>g. fst (load_directory E S path s) = None \<Longrightarrow> g \<in> set ?gs \<Longrightarrow>
      classified_as E (fst s) path g TYPE_MENU \<Longrightarrow>
      os_path_basename (os_path_join path g) \<in> dom (cells (snd ?s') (menu_documents (fst s)))"
    using load_directory_adds [of E S path s _ TYPE_MENU] by simp
  show ?thesis
    using dom idx keys art menu load_directory_index_same [of E path s S]
      load_directory_index_set [of E S path s]
    by (simp add: get_articles_def get_menus_def get_index_page_def load_directory_loader)
qed


text \<open>
  The claim as stated fails: both loads succeed, \<open>/web2\<close> holds only
  \<open>index.html\<close> and \<open>b.html\<close>, and after the second load the article mapping
  still holds \<open>a.html\<close> and the menu mapping \<open>m.html\<close>, both of \<open>/web1\<close>.
\<close>

theorem reload_counterexample:
  "fst (load_directory two_sites sample_strings ''/web1'' new_loader) = None \<and>
   fst (load_directory two_sites sample_strings ''/web2'' after_web1) = None \<and>
   glob_glob two_sites ''/web2/*.html'' = [''/web2/index.html'', ''/web2/b.html''] \<and>
   map_option doc_file_path (get_articles after_web2 ''a.html'') = Some ''/web1/a.html'' \<and>
   map_option doc_file_path (get_menus after_web2 ''m.html'') = Some ''/web1/m.html''"
  by code_simp

theorem reload_keeps_previous_session_witness:
  "''a.html'' \<in> dom (get_articles after_web1) \<and>
   ''a.html'' \<in> dom (get_articles after_web2) \<and>
   get_articles after_web2 ''a.html'' = get_articles after_web1 ''a.html'' \<and>
   fst (load_directory two_sites sample_strings ''/web2'' after_web1) = None \<and>
   classified_as two_sites (fst after_web1) ''/web2'' ''/web2/b.html'' TYPE_ARTICLE \<and>
   ''b.html'' \<in> dom (get_articles after_web2) \<and>
   classified_as two_sites (fst after_web1) ''/web2'' ''/web2/index.html'' TYPE_INDEX \<and>
   map_option doc_file_path (get_index_page after_web1) = Some ''/web1/index.html'' \<and>
   get_index_page after_web2
     = Some (document_of two_sites ''/web2'' ''/web2/index.html'' TYPE_INDEX None) \<and>
   doc_file_path (document_of two_sites ''/web2'' ''/web2/index.html'' TYPE_INDEX None)
     = ''/web2/index.html'' \<and>
   get_index_page (snd (load_directory odd_sites sample_strings ''/empty'' after_web1))
     = get_index_page after_web1"
proof -
  note merge = reload_keeps_previous_session [of after_web1 two_sites sample_strings "''/web2''"]
  note failed = reload_keeps_previous_session [of after_web1 odd_sites sample_strings "''/empty''"]
  have files: "glob_glob two_sites (''/web2'' @ ''/*.html'') = [''/web2/index.html'', ''/web2/b.html'']"
    by code_simp
  have a: "''a.html'' \<in> dom (get_articles after_web1)"
    by code_simp
  have n: "''a.html'' \<notin> os_path_basename ` os_path_join ''/web2'' `
      set (glob_glob two_sites (''/web2'' @ ''/*.html''))"
    by code_simp
  have ok: "fst (load_directory two_sites sample_strings ''/web2'' after_web1) = None"
    by code_simp
  have b: "classified_as two_sites (fst after_web1) ''/web2'' ''/web2/b.html'' TYPE_ARTICLE"
    "\<not> classified_as two_sites (fst after_web1) ''/web2'' ''/web2/b.html'' TYPE_INDEX"
    by code_simp+
  have i: "classified_as two_sites (fst after_web1) ''/web2'' ''/web2/index.html'' TYPE_INDEX"
    by code_simp
  have names: "os_path_basename (os_path_join ''/web2'' ''/web2/b.html'') = ''b.html''"
    "doc_file_path (document_of two_sites ''/web2'' ''/web2/index.html'' TYPE_INDEX None)
       = ''/web2/index.html''"
    by code_simp+
  have before: "map_option doc_file_path (get_index_page after_web1) = Some ''/web1/index.html''"
    by code_simp
  have none: "\<forall>g \<in> set (glob_glob odd_sites (''/empty'' @ ''/*.html'')).
      \<not> classified_as odd_sites (fst after_web1) ''/empty'' g TYPE_INDEX"
    by code_simp
  have kept: "''a.html'' \<in> dom (get_articles after_web2) \<and>
      get_articles after_web2 ''a.html'' = get_articles after_web1 ''a.html''"
    using merge a n unfolding after_web2_def [symmetric] by blast
  have added: "''b.html'' \<in> dom (get_articles after_web2)"
    using merge ok b(1) names(1) unfolding after_web2_def [symmetric] files by simp
  have replaced: "get_index_page after_web2
      = Some (document_of two_sites ''/web2'' ''/web2/index.html'' TYPE_INDEX None)"
    using merge ok i b(2) unfolding after_web2_def [symmetric] files by simp
  have unchanged: "get_index_page (snd (load_directory odd_sites sample_strings ''/empty'' after_web1))
      = get_index_page after_web1"
    using failed none by blast
  show ?thesis
    using a kept ok b(1) added i before replaced names(2) unchanged by simp
qed


section \<open>Files that match no schema\<close>

text \<open>
  C5. A readable and writable file that parses and satisfies none of the three schemas
  is skipped when its base name contains \<open>google\<close> or \<open>404\<close>: the iteration
  raises nothing and leaves the loader and both dictionaries as they were, and the loop
  goes on with the next file. For every other such file the loop stops at once with
  \<^verbatim>\<open>UnrecognizedFileException\<close>, whose message ends with the file's base name;
  the files after it are not looked at.
\<close>

theorem unmatched_file_handling:
  assumes "path_isfile E (os_path_join path g)"
    and "access_R E (os_path_join path g)" and "access_W E (os_path_join path g)"
    and "html_parse E (os_path_join path (os_path_join path g)) = Parsed d"
    and "\<not> validate (xmlschema_article (fst s)) d"
    and "\<not> validate (xmlschema_menu (fst s)) d"
    and "\<not> validate (xmlschema_index (fst s)) d"
  shows "(sublist ''google'' (os_path_basename (os_path_join path g))
            \<or> sublist ''404'' (os_path_basename (os_path_join path g)) \<longrightarrow>
          process_file E S path g s = (None, s) \<and>
          prepare_loop E S path (g # gs) s = prepare_loop E S path gs s) \<and>
         (\<not> sublist ''google'' (os_path_basename (os_path_join path g))
            \<and> \<not> sublist ''404'' (os_path_basename (os_path_join path g)) \<longrightarrow>
          prepare_loop E S path (g # gs) s =
            (Some (UnrecognizedFileException
                     (exception_file_unrecognized S @ '' '' @ os_path_basename (os_path_join path g))), s))"
  using assms
  by (simp add: process_file_def classify_def Let_def str_in_sublist)

theorem unmatched_file_handling_witness:
  "sublist ''google'' (os_path_basename (os_path_join ''/odd'' ''/odd/google123.html'')) \<and>
   process_file odd_sites sample_strings ''/odd'' ''/odd/google123.html'' new_loader = (None, new_loader) \<and>
   fst (load_directory odd_sites sample_strings ''/odd'' new_loader)
     = Some (UnrecognizedFileException ''unrecognized other.html'') \<and>
   \<not> sublist ''google'' (os_path_basename (os_path_join ''/odd'' ''/odd/other.html'')) \<and>
   \<not> sublist ''404'' (os_path_basename (os_path_join ''/odd'' ''/odd/other.html'')) \<and>
   prepare_loop odd_sites sample_strings ''/odd'' [''/odd/other.html'', ''/odd/index.html''] new_loader
     = (Some (UnrecognizedFileException ''unrecognized other.html''), new_loader)"
proof -
  have g: "path_isfile odd_sites (os_path_join ''/odd'' ''/odd/google123.html'')"
    "access_R odd_sites (os_path_join ''/odd'' ''/odd/google123.html'')"
    "access_W odd_sites (os_path_join ''/odd'' ''/odd/google123.html'')"
    "html_parse odd_sites (os_path_join ''/odd'' (os_path_join ''/odd'' ''/odd/google123.html'')) = Parsed []"
    by code_simp+
  have o: "path_isfile odd_sites (os_path_join ''/odd'' ''/odd/other.html'')"
    "access_R odd_sites (os_path_join ''/odd'' ''/odd/other.html'')"
    "access_W odd_sites (os_path_join ''/odd'' ''/odd/other.html'')"
    "html_parse odd_sites (os_path_join ''/odd'' (os_path_join ''/odd'' ''/odd/other.html'')) = Parsed []"
    by code_simp+
  have v: "\<not> validate (xmlschema_article (fst new_loader)) []"
    "\<not> validate (xmlschema_menu (fst new_loader)) []"
    "\<not> validate (xmlschema_index (fst new_loader)) []"
    by code_simp+
  have names: "sublist ''google'' (os_path_basename (os_path_join ''/odd'' ''/odd/google123.html''))"
    "\<not> sublist ''google'' (os_path_basename (os_path_join ''/odd'' ''/odd/other.html''))"
    "\<not> sublist ''404'' (os_path_basename (os_path_join ''/odd'' ''/odd/other.html''))"
    by code_simp+
  have msg: "exception_file_unrecognized sample_strings @ '' '' @
      os_path_basename (os_path_join ''/odd'' ''/odd/other.html'') = ''unrecognized other.html''"
    by code_simp
  have load: "fst (load_directory odd_sites sample_strings ''/odd'' new_loader)
     = Some (UnrecognizedFileException ''unrecognized other.html'')"
    by code_simp
  show ?thesis
    using unmatched_file_handling [OF g v, of sample_strings "[]"]
      unmatched_file_handling [OF o v, of sample_strings "[''/odd/index.html'']"]
      names msg load
    by simp
qed


section \<open>Files that do not parse\<close>





section \<open>The index file\<close>

text \<open>
  C7. In a readable and writable root directory, a missing \<open>index.html\<close> makes the
  load fail with \<^verbatim>\<open>FileNotFoundError\<close>, and an \<open>index.html\<close> that exists and
  parses but fails the index schema makes it fail with \<^verbatim>\<open>IndexError\<close> carrying
  the not-whitebear message and the schema's error log; the two classes are different
  whatever the messages.
\<close>

theorem index_gate_errors:
  assumes "access_R E path" and "access_W E path"
  shows "(\<not> path_exists E (os_path_join path ''index.html'') \<longrightarrow>
            load_directory E S path s =
              (Some (FileNotFoundError (exception_index S @ '' '' @ path)),
               (fst s)\<lparr>directory_path := path\<rparr>, snd s)) \<and>
         (path_exists E (os_path_join path ''index.html'') \<and>
          html_parse E (os_path_join path ''index.html'') = Parsed d \<and>
          \<not> validate (xmlschema_index (fst s)) d \<longrightarrow>
            load_directory E S path s =
              (Some (IndexError (exception_not_white_bear S @ newline
                                   @ error_log (xmlschema_index (fst s)) d)),
               (fst s)\<lparr>directory_path := path\<rparr>, snd s)) \<and>
         (\<forall>m m'. FileNotFoundError m \<noteq> IndexError m')"
  using assms
  by (simp add: load_directory_cases is_white_bear_directory_def)

theorem index_gate_errors_witness:
  "fst (load_directory odd_sites sample_strings ''/empty'' new_loader)
     = Some (FileNotFoundError ''no index in /empty'') \<and>
   fst (load_directory odd_sites sample_strings ''/alien'' new_loader)
     = Some (IndexError (''not whitebear'' @ newline @ ''no index''))"
proof -
  have e: "access_R odd_sites ''/empty''" "access_W odd_sites ''/empty''"
    by code_simp+
  have a: "access_R odd_sites ''/alien''" "access_W odd_sites ''/alien''"
    by code_simp+
  have missing: "\<not> path_exists odd_sites (os_path_join ''/empty'' ''index.html'')"
    by code_simp
  have present: "path_exists odd_sites (os_path_join ''/alien'' ''index.html'')"
    "html_parse odd_sites (os_path_join ''/alien'' ''index.html'') = Parsed [''article'']"
    "\<not> validate (xmlschema_index (fst new_loader)) [''article'']"
    by code_simp+
  have msgs: "exception_index sample_strings @ '' '' @ ''/empty'' = ''no index in /empty''"
    "exception_not_white_bear sample_strings = ''not whitebear''"
    "error_log (xmlschema_index (fst new_loader)) [''article''] = ''no index''"
    by code_simp+
  show ?thesis
    using index_gate_errors [OF e, where S = sample_strings and s = new_loader]
      index_gate_errors [OF a, where S = sample_strings and s = new_loader and d = "[''article'']"]
      missing present msgs
    by simp
qed


section \<open>Validation of an image\<close>

lemma seo_test_self_result:
  "fst (seo_test_self N T self) \<longleftrightarrow>
     title_passes N T (link_title self) \<and> alt_passes N T (image_alt self)"
  by (auto simp: seo_test_self_def Let_def title_passes_def alt_passes_def split: if_splits)

lemma seo_test_self_status:
  "status_color (snd (seo_test_self N T self)) =
     Some (if fst (seo_test_self N T self) then NullColour else RED)"
  by (auto simp: seo_test_self_def Let_def split: if_splits)

lemma seo_test_self_title_message:
  "link_title_error_message (snd (seo_test_self N T self)) =
     (if link_title self = label_article_image_link_title T then seo_error_default_value T
      else if int (length (link_title self)) < article_image_title_min N
              \<or> int (length (link_title self)) > article_image_title_max N
      then seo_error_link_title_length T
      else [])"
  by (auto simp: seo_test_self_def Let_def split: if_splits)

lemma seo_test_self_alt_message:
  "image_alt_error_message (snd (seo_test_self N T self)) =
     (if image_alt self = label_article_image_alt T then seo_error_default_value T
      else if int (length (image_alt self)) < article_image_alt_min N
              \<or> int (length (image_alt self)) > article_image_alt_max N
      then seo_error_image_alt_length T
      else [])"
  by (auto simp: seo_test_self_def Let_def split: if_splits)

text \<open>
  C8, as the code has it. A link title equal to the placeholder fails with the
  placeholder message whatever its length, and the status is red. A link title one
  character shorter than the minimum and different from the placeholder fails with the
  length message, and the status is red. A link title within the bounds and different
  from the placeholder gets an empty message; the check as a whole then returns true,
  with the neutral status, exactly when the alt text passes its own two rules, since
  result and status belong to the image and not to one field.
\<close>

theorem link_title_validation:
  "(link_title self = label_article_image_link_title T \<longrightarrow>
      \<not> fst (seo_test_self N T self) \<and>
      get_link_title (snd (seo_test_self N T self)) = (link_title self, seo_error_default_value T) \<and>
      get_status_color (snd (seo_test_self N T self)) = Some RED) \<and>
   (int (length (link_title self)) = article_image_title_min N - 1 \<and>
    link_title self \<noteq> label_article_image_link_title T \<longrightarrow>
      \<not> fst (seo_test_self N T self) \<and>
      get_link_title (snd (seo_test_self N T self)) = (link_title self, seo_error_link_title_length T) \<and>
      get_status_color (snd (seo_test_self N T self)) = Some RED) \<and>
   (article_image_title_min N \<le> int (length (link_title self)) \<and>
    int (length (link_title self)) \<le> article_image_title_max N \<and>
    link_title self \<noteq> label_article_image_link_title T \<longrightarrow>
      get_link_title (snd (seo_test_self N T self)) = (link_title self, []) \<and>
      (fst (seo_test_self N T self) \<longleftrightarrow> alt_passes N T (image_alt self)) \<and>
      (get_status_color (snd (seo_test_self N T self)) = Some NullColour
         \<longleftrightarrow> alt_passes N T (image_alt self)))"
  by (auto simp: seo_test_self_def Let_def alt_passes_def get_link_title_def get_status_color_def
      split: if_splits)

text \<open>
  The claim as stated fails in its last part: the link title \<open>a title\<close> is within
  the bounds and is not the placeholder, its message is empty, but the alt text
  \<open>x\<close> is too short, so the check returns false and the status is red.
\<close>

theorem link_title_validation_counterexample:
  "article_image_title_min sample_numbers \<le> int (length ''a title'') \<and>
   int (length ''a title'') \<le> article_image_title_max sample_numbers \<and>
   ''a title'' \<noteq> label_article_image_link_title sample_seo_strings \<and>
   fst (seo_test_self sample_numbers sample_seo_strings (sample_image ''a title'' ''x'')) = False \<and>
   get_status_color (snd (seo_test_self sample_numbers sample_seo_strings (sample_image ''a title'' ''x'')))
     = Some RED \<and>
   get_link_title (snd (seo_test_self sample_numbers sample_seo_strings (sample_image ''a title'' ''x'')))
     = (''a title'', [])"
  by (simp add: seo_sample_simps)

theorem link_title_validation_witness:
  "get_link_title (snd (seo_test_self sample_numbers sample_seo_strings
      (sample_image ''link title'' ''a photo''))) = (''link title'', ''default value'') \<and>
   int (length ''link title'') \<le> article_image_title_max sample_numbers \<and>
   get_status_color (snd (seo_test_self sample_numbers sample_seo_strings
      (sample_image ''link title'' ''a photo''))) = Some RED \<and>
   get_link_title (snd (seo_test_self sample_numbers sample_seo_strings
      (sample_image ''ab'' ''a photo''))) = (''ab'', ''title length'') \<and>
   get_status_color (snd (seo_test_self sample_numbers sample_seo_strings
      (sample_image ''ab'' ''a photo''))) = Some RED \<and>
   fst (seo_test_self sample_numbers sample_seo_strings (sample_image ''a title'' ''a photo'')) \<and>
   get_link_title (snd (seo_test_self sample_numbers sample_seo_strings
      (sample_image ''a title'' ''a photo''))) = (''a title'', []) \<and>
   get_status_color (snd (seo_test_self sample_numbers sample_seo_strings
      (sample_image ''a title'' ''a photo''))) = Some NullColour"
proof -
  have placeholder: "link_title (sample_image ''link title'' ''a photo'')
      = label_article_image_link_title sample_seo_strings"
    "int (length ''link title'') \<le> article_image_title_max sample_numbers"
    by (simp_all add: seo_sample_simps)
  have short: "int (length (link_title (sample_image ''ab'' ''a photo'')))
      = article_image_title_min sample_numbers - 1"
    "link_title (sample_image ''ab'' ''a photo'') \<noteq> label_article_image_link_title sample_seo_strings"
    by (simp_all add: seo_sample_simps)
  have good: "article_image_title_min sample_numbers
        \<le> int (length (link_title (sample_image ''a title'' ''a photo'')))"
    "int (length (link_title (sample_image ''a title'' ''a photo'')))
        \<le> article_image_title_max sample_numbers"
    "link_title (sample_image ''a title'' ''a photo'') \<noteq> label_article_image_link_title sample_seo_strings"
    "alt_passes sample_numbers sample_seo_strings (image_alt (sample_image ''a title'' ''a photo''))"
    by (simp_all add: seo_sample_simps)
  have fields: "link_title (sample_image ''link title'' ''a photo'') = ''link title''"
    "link_title (sample_image ''ab'' ''a photo'') = ''ab''"
    "link_title (sample_image ''a title'' ''a photo'') = ''a title''"
    "seo_error_default_value sample_seo_strings = ''default value''"
    "seo_error_link_title_length sample_seo_strings = ''title length''"
    by (simp_all add: seo_sample_simps)
  show ?thesis
    using link_title_validation [of "sample_image ''link title'' ''a photo''" sample_seo_strings sample_numbers]
      link_title_validation [of "sample_image ''ab'' ''a photo''" sample_seo_strings sample_numbers]
      link_title_validation [of "sample_image ''a title'' ''a photo''" sample_seo_strings sample_numbers]
      placeholder short good fields
    by simp
qed

text \<open>
  C9. The messages, the status and the result after a call of
  \<^verbatim>\<open>seo_test_self\<close> are those of any other image with the same link title and
  alt text: what earlier calls left in the messages and in the status has no effect.
  In particular, when both fields pass their rules the call returns true and leaves
  both messages empty and the status neutral, whatever was flagged before.
\<close>

theorem validation_is_stateless:
  "(link_title a = link_title b \<and> image_alt a = image_alt b \<longrightarrow>
      fst (seo_test_self N T a) = fst (seo_test_self N T b) \<and>
      get_link_title (snd (seo_test_self N T a)) = get_link_title (snd (seo_test_self N T b)) \<and>
      get_image_alt (snd (seo_test_self N T a)) = get_image_alt (snd (seo_test_self N T b)) \<and>
      get_status_color (snd (seo_test_self N T a)) = get_status_color (snd (seo_test_self N T b))) \<and>
   (title_passes N T (link_title a) \<and> alt_passes N T (image_alt a) \<longrightarrow>
      fst (seo_test_self N T a) \<and>
      get_link_title (snd (seo_test_self N T a)) = (link_title a, []) \<and>
      get_image_alt (snd (seo_test_self N T a)) = (image_alt a, []) \<and>
      get_status_color (snd (seo_test_self N T a)) = Some NullColour)"
  by (auto simp: seo_test_self_def Let_def title_passes_def alt_passes_def get_status_color_def
      get_link_title_def get_image_alt_def split: if_splits)

theorem validation_is_stateless_witness:
  "get_status_color (snd (seo_test_self sample_numbers sample_seo_strings
      (sample_image ''ab'' ''a photo''))) = Some RED \<and>
   get_link_title edited_image = (''a title'', ''title length'') \<and>
   get_status_color edited_image = Some RED \<and>
   fst (seo_test_self sample_numbers sample_seo_strings edited_image) \<and>
   get_link_title (snd (seo_test_self sample_numbers sample_seo_strings edited_image))
     = (''a title'', []) \<and>
   get_image_alt (snd (seo_test_self sample_numbers sample_seo_strings edited_image))
     = (''a photo'', []) \<and>
   get_status_color (snd (seo_test_self sample_numbers sample_seo_strings edited_image))
     = Some NullColour \<and>
   get_status_color (snd (seo_test_self sample_numbers sample_seo_strings edited_image))
     = get_status_color (snd (seo_test_self sample_numbers sample_seo_strings
         (sample_image ''a title'' ''a photo'')))"
proof -
  have before: "get_status_color (snd (seo_test_self sample_numbers sample_seo_strings
      (sample_image ''ab'' ''a photo''))) = Some RED"
    "get_link_title edited_image = (''a title'', ''title length'')"
    "get_status_color edited_image = Some RED"
    by (simp_all add: edited_image_def seo_sample_simps)
  have same: "link_title edited_image = link_title (sample_image ''a title'' ''a photo'')"
    "image_alt edited_image = image_alt (sample_image ''a title'' ''a photo'')"
    by (simp_all add: edited_image_def seo_sample_simps)
  have fields: "link_title edited_image = ''a title''" "image_alt edited_image = ''a photo''"
    by (simp_all add: edited_image_def seo_sample_simps)
  have pass: "title_passes sample_numbers sample_seo_strings (link_title edited_image)"
    "alt_passes sample_numbers sample_seo_strings (image_alt edited_image)"
    by (simp_all add: edited_image_def seo_sample_simps)
  note fact = validation_is_stateless [of edited_image "sample_image ''a title'' ''a photo''"
      sample_numbers sample_seo_strings]
  have agree: "get_status_color (snd (seo_test_self sample_numbers sample_seo_strings edited_image))
     = get_status_color (snd (seo_test_self sample_numbers sample_seo_strings
         (sample_image ''a title'' ''a photo'')))"
    using fact same by blast
  have clean: "fst (seo_test_self sample_numbers sample_seo_strings edited_image) \<and>
      get_link_title (snd (seo_test_self sample_numbers sample_seo_strings edited_image))
        = (link_title edited_image, []) \<and>
      get_image_alt (snd (seo_test_self sample_numbers sample_seo_strings edited_image))
        = (image_alt edited_image, []) \<and>
      get_status_color (snd (seo_test_self sample_numbers sample_seo_strings edited_image))
        = Some NullColour"
    using fact pass by blast
  show ?thesis
    using before agree clean unfolding fields by blast
qed


section \<open>The directory path\<close>

text \<open>
  C10. \<^verbatim>\<open>load_directory\<close> stores the supplied path before the gate and the loop
  run and nothing restores it: whatever the outcome of the load, success or any
  exception, \<^verbatim>\<open>get_directory\<close> afterwards returns the supplied path.
\<close>

theorem load_directory_stores_path:
  "get_directory (fst (snd (load_directory E S path s))) = path"
  by (simp add: load_directory_def get_directory_def Let_def prepare_documents_def
      prepare_loop_loader split: sum.splits)



end
